theory Spec2Isabelle
  imports Complex_Main
begin

section \<open>Data model\<close>

text \<open>
  The forecasting and optimisation services of the repository
  (\<^verbatim>\<open>src/services/forecasting.py\<close>, \<^verbatim>\<open>src/services/optimization.py\<close>) read four
  tables of \<^verbatim>\<open>src/data/inventory.py\<close>.  Each table is a list of rows in table order.
  A timestamp is a number of seconds since the epoch and a calendar date a number of
  days since the epoch.  Errors are the \<^verbatim>\<open>{"error": message}\<close> dictionaries of the
  source: \<open>Inl message\<close>.  Integer columns and the sums of quantities are unbounded
  integers (the 64-bit sums of pandas do not wrap for the quantities of a store).
\<close>

record transaction =
  t_product_id :: int
  t_transaction_type :: string
  t_quantity :: int
  t_timestamp :: int

record product =
  p_id :: int
  p_sku :: string
  p_name :: string
  p_unit_cost :: real
  p_supplier_id :: "int option"
  p_reorder_point :: int

text \<open>\<^verbatim>\<open>lead_time_days\<close> is validated by the API layer (\<^verbatim>\<open>Field(ge=1)\<close>); it is a
  natural number here.  The reorder point of a product and the quantity on hand of an
  inventory row are integers: the columns have defaults and are never empty.\<close>

record supplier =
  s_id :: int
  s_name :: string
  s_lead_time_days :: nat

record location =
  l_id :: int
  l_location_id :: string

record inventory =
  i_product_id :: int
  i_location_id :: int
  i_quantity_on_hand :: int

record db =
  products :: "product list"
  suppliers :: "supplier list"
  locations :: "location list"
  inventory_rows :: "inventory list"
  transactions :: "transaction list"
  utcnow :: int

record forecast_result =
  fr_product_id :: int
  forecast_method :: string
  horizon_days :: nat
  total_forecast :: real
  daily_average :: real
  forecast_series :: "real list option"
  trend_slope :: "real option"
  parameters :: "(string \<times> real) list"
  data_points :: nat

section \<open>Floating-point arithmetic\<close>

text \<open>
  A Python \<^verbatim>\<open>float\<close> and a numpy \<^verbatim>\<open>float64\<close> are IEEE 754 binary64 numbers.  A finite
  double is modelled by the real number it denotes, and every operation of Python and of
  numpy on scalars (and element by element on arrays) returns the double nearest to the
  exact result, a tie going to the even significand: \<open>binary64\<close> is that rounding.  A
  non-zero \<open>x\<close> with \<open>2\<^sup>e \<le> \<bar>x\<bar> < 2\<^sup>e\<^sup>+\<^sup>1\<close> is rounded to a multiple of \<open>2\<^sup>e\<^sup>-\<^sup>5\<^sup>2\<close>.
  The exponent is not bounded here: \<open>binary64\<close> is the rounding of the hardware for
  results of magnitude between \<open>2\<^sup>-\<^sup>1\<^sup>0\<^sup>2\<^sup>2\<close> and \<open>2\<^sup>1\<^sup>0\<^sup>2\<^sup>4\<close> (no overflow to infinity, no
  subnormal result), and infinities and NaN are not values of the model.

  The reductions of the libraries are another matter: the order in which \<^verbatim>\<open>np.sum\<close>,
  Python's \<^verbatim>\<open>sum\<close> and the pandas statistics over floats (\<^verbatim>\<open>mean\<close>, \<^verbatim>\<open>std\<close>,
  \<^verbatim>\<open>ewm\<close>) add their terms is fixed by the library, not by the repository; these
  sums are taken exact, and so are the statistics of \<^verbatim>\<open>get_seasonal_patterns\<close>.  A
  sum of integer demands is exact in the code too.
\<close>

definition round_half_even :: "real \<Rightarrow> int" where
  "round_half_even x =
     (let f = \<lfloor>x\<rfloor>; r = x - of_int f
      in if r < 1/2 then f else if 1/2 < r then f + 1 else if even f then f else f + 1)"

definition binary64 :: "real \<Rightarrow> real" where
  "binary64 x =
     (if x = 0 then 0
      else let e = \<lfloor>log 2 \<bar>x\<bar>\<rfloor>
           in of_int (round_half_even (x * 2 powi (52 - e))) * 2 powi (e - 52))"

definition fadd :: "real \<Rightarrow> real \<Rightarrow> real" where
  "fadd x y = binary64 (x + y)"

definition fsub :: "real \<Rightarrow> real \<Rightarrow> real" where
  "fsub x y = binary64 (x - y)"

definition fmul :: "real \<Rightarrow> real \<Rightarrow> real" where
  "fmul x y = binary64 (x * y)"

text \<open>A division of Python floats by zero raises \<^verbatim>\<open>ZeroDivisionError\<close>: it is a
  branch of the caller.  With a divisor 0 the quotient below is 0, as in HOL.\<close>

definition fdiv :: "real \<Rightarrow> real \<Rightarrow> real" where
  "fdiv x y = binary64 (x / y)"

definition fsqrt :: "real \<Rightarrow> real" where
  "fsqrt x = binary64 (sqrt x)"

text \<open>Python's \<^verbatim>\<open>round(x, ndigits)\<close> on a double: the decimal with \<open>ndigits\<close> places
  nearest to the exact value of \<open>x\<close>, a tie going to the even digit, and then the double
  nearest to that decimal.\<close>

definition py_round :: "real \<Rightarrow> nat \<Rightarrow> real" where
  "py_round x ndigits = binary64 (of_int (round_half_even (x * 10 ^ ndigits)) / 10 ^ ndigits)"

section \<open>Demand history\<close>

definition date_of :: "int \<Rightarrow> int" where
  "date_of ts = ts div 86400"

text \<open>\<^verbatim>\<open>get_historical_demand\<close>: the shipments of the product since the cutoff, grouped
  by calendar date, the absolute quantities summed; \<^verbatim>\<open>groupby\<close> returns the dates in
  increasing order.\<close>

definition get_historical_demand :: "db \<Rightarrow> int \<Rightarrow> nat \<Rightarrow> (int \<times> int) list" where
  "get_historical_demand d product_id days =
     (let cutoff_date = utcnow d - int days * 86400;
          txs = filter (\<lambda>t. t_product_id t = product_id
                            \<and> t_transaction_type t = ''shipment''
                            \<and> cutoff_date \<le> t_timestamp t) (transactions d)
      in map (\<lambda>day. (day, sum_list (map (\<lambda>t. \<bar>t_quantity t\<bar>)
                                   (filter (\<lambda>t. date_of (t_timestamp t) = day) txs))))
             (sort (remdups (map (\<lambda>t. date_of (t_timestamp t)) txs))))"

text \<open>\<^verbatim>\<open>asfreq('D', fill_value=0)\<close> on a frame indexed by sorted dates: every calendar
  day from the first to the last date, a day without a row getting demand 0.\<close>

definition asfreq :: "(int \<times> int) list \<Rightarrow> (int \<times> int) list" where
  "asfreq df =
     (case df of
        [] \<Rightarrow> []
      | _ \<Rightarrow> map (\<lambda>day. (day, case map_of df day of Some v \<Rightarrow> v | None \<Rightarrow> 0))
                 [fst (hd df) .. fst (last df)])"

section \<open>Forecasting service\<close>

subsection \<open>Trend analysis\<close>

text \<open>The sums of the regression are sums of integers; the slope, the intercept and the
  forecast values are doubles.  \<^verbatim>\<open>np.sum\<close> over the forecast values is taken exact.
  For a horizon of 0 numpy divides 0.0 by 0 and the daily average is NaN, which is not
  a value here: the quotient is 0.  The horizon is at least 1 in every call of the API
  (\<^verbatim>\<open>Field(ge=1, le=365)\<close>).\<close>

definition trend_analysis_forecast :: "db \<Rightarrow> int \<Rightarrow> nat \<Rightarrow> string + forecast_result" where
  "trend_analysis_forecast d product_id horizon =
     (let df = get_historical_demand d product_id 60 in
      if length df < 10 then
        Inl ''Insufficient data for trend analysis. Need at least 10 days of data.''
      else
        let df = asfreq df;
            x = map int [0 ..< length df];
            y = map snd df;
            n = int (length x);
            sum_x = sum_list x;
            sum_y = sum_list y;
            sum_xy = sum_list (map2 (*) x y);
            sum_x2 = sum_list (map2 (*) x x);
            slope = fdiv (binary64 (real_of_int (n * sum_xy - sum_x * sum_y)))
                         (binary64 (real_of_int (n * sum_x2 - sum_x * sum_x)));
            intercept = fdiv (fsub (binary64 (real_of_int sum_y))
                                   (fmul slope (binary64 (real_of_int sum_x))))
                             (binary64 (real_of_int n));
            forecast_x = [length df ..< length df + horizon];
            forecast_values =
              map (\<lambda>fx. fadd (fmul slope (binary64 (real fx))) intercept) forecast_x;
            forecast_values = map (\<lambda>v. max v 0) forecast_values;
            total_forecast = sum_list forecast_values;
            daily_average = fdiv total_forecast (binary64 (real horizon))
        in Inr \<lparr> fr_product_id = product_id,
                 forecast_method = ''trend_analysis'',
                 horizon_days = horizon,
                 total_forecast = total_forecast,
                 daily_average = daily_average,
                 forecast_series = Some forecast_values,
                 trend_slope = Some slope,
                 parameters = [(''slope'', slope), (''intercept'', intercept)],
                 data_points = length df \<rparr>)"

subsection \<open>Moving average\<close>

text \<open>The decimal text of a number, as an f-string prints it.\<close>

fun string_of_nat :: "nat \<Rightarrow> string" where
  "string_of_nat n =
     (if n < 10 then [char_of (48 + n)]
      else string_of_nat (n div 10) @ [char_of (48 + n mod 10)])"

declare string_of_nat.simps [simp del]

definition mean :: "real list \<Rightarrow> real" where
  "mean xs = sum_list xs / real (length xs)"

text \<open>The mean of integer demands as pandas returns it: the sum is exact and the
  quotient is a double.\<close>

definition float_mean :: "real list \<Rightarrow> real" where
  "float_mean xs = fdiv (sum_list xs) (real (length xs))"

text \<open>\<^verbatim>\<open>df['demand'].rolling(window=window).mean().iloc[-1]\<close>: the mean of the last
  \<open>window\<close> rows of the frame; \<open>None\<close> is pandas' NaN, the value when fewer than
  \<open>window\<close> rows exist (or the window is empty).\<close>

definition rolling_mean_last :: "nat \<Rightarrow> real list \<Rightarrow> real option" where
  "rolling_mean_last window ys =
     (if window = 0 \<or> length ys < window then None
      else Some (float_mean (drop (length ys - window) ys)))"

definition moving_average_forecast :: "db \<Rightarrow> int \<Rightarrow> nat \<Rightarrow> nat \<Rightarrow> string + forecast_result" where
  "moving_average_forecast d product_id horizon window =
     (let df = get_historical_demand d product_id (window * 2) in
      if length df < window then
        Inl (''Insufficient data. Need at least '' @ string_of_nat window @ '' days of data.'')
      else if df = [] then
        Inl ''Forecast calculation failed: single positional indexer is out-of-bounds''
      else
        let demand = map (\<lambda>r. real_of_int (snd r)) df;
            last_ma = (case rolling_mean_last window demand of
                         Some ma \<Rightarrow> ma
                       | None \<Rightarrow> float_mean demand);
            total_forecast = fmul last_ma (binary64 (real horizon))
        in Inr \<lparr> fr_product_id = product_id,
                 forecast_method = ''moving_average'',
                 horizon_days = horizon,
                 total_forecast = total_forecast,
                 daily_average = last_ma,
                 forecast_series = None,
                 trend_slope = None,
                 parameters = [(''window'', real window)],
                 data_points = length df \<rparr>)"

subsection \<open>Exponential smoothing\<close>

text \<open>The model object handed to statsmodels' \<^verbatim>\<open>ExponentialSmoothing\<close>.  The library
  is not part of the repository: fitting a model and forecasting \<open>horizon\<close> steps is a
  parameter \<open>fit\<close> of the embedding, \<open>Inl\<close> being an exception raised by the library.\<close>

record es_model =
  endog :: "real list"
  trend :: "string option"
  seasonal :: "string option"
  initialization_method :: string

type_synonym es_fit = "es_model \<Rightarrow> nat \<Rightarrow> string + real list"

text \<open>Lines 105 to 118: the model of the first attempt.\<close>

definition es_first_model :: "real list \<Rightarrow> es_model" where
  "es_first_model demand_series =
     (if 28 \<le> length demand_series then
        \<lparr> endog = demand_series, trend = Some ''add'', seasonal = None,
          initialization_method = ''estimated'' \<rparr>
      else
        \<lparr> endog = demand_series, trend = Some ''add'', seasonal = None,
          initialization_method = ''estimated'' \<rparr>)"

text \<open>Lines 125 to 130: the model of the retry after an exception.\<close>

definition es_fallback_model :: "real list \<Rightarrow> es_model" where
  "es_fallback_model demand_series =
     \<lparr> endog = demand_series, trend = None, seasonal = None,
       initialization_method = ''estimated'' \<rparr>"

text \<open>\<^verbatim>\<open>series.ewm(alpha=alpha).mean().iloc[-1]\<close> (pandas' default \<^verbatim>\<open>adjust=True\<close>).\<close>

definition ewm_mean_last :: "real \<Rightarrow> real list \<Rightarrow> real" where
  "ewm_mean_last alpha xs =
     (let w = map (\<lambda>i. (1 - alpha) ^ i) [0 ..< length xs]
      in sum_list (map2 (*) w (rev xs)) / sum_list w)"

definition exponential_smoothing_forecast ::
    "es_fit \<Rightarrow> db \<Rightarrow> int \<Rightarrow> nat \<Rightarrow> string + forecast_result" where
  "exponential_smoothing_forecast fit d product_id horizon =
     (let df = get_historical_demand d product_id 90 in
      if length df < 14 then
        Inl ''Insufficient data. Need at least 14 days of data.''
      else
        let demand_series = map (\<lambda>r. real_of_int (snd r)) (asfreq df);
            attempt =
              (if 14 \<le> length demand_series then
                 (case fit (es_first_model demand_series) horizon of
                    Inr forecast \<Rightarrow> Inr forecast
                  | Inl _ \<Rightarrow> fit (es_fallback_model demand_series) horizon)
               else
                 Inr (replicate horizon (ewm_mean_last (binary64 0.3) demand_series)))
        in case attempt of
             Inl e \<Rightarrow> Inl (''Forecast calculation failed: '' @ e)
           | Inr forecast \<Rightarrow>
               if horizon = 0 \<and> forecast = [] then
                 Inl ''Forecast calculation failed: division by zero''
               else
                 let total_forecast = sum_list forecast;
                     daily_average = fdiv total_forecast (binary64 (real horizon))
                 in Inr \<lparr> fr_product_id = product_id,
                          forecast_method = ''exponential_smoothing'',
                          horizon_days = horizon,
                          total_forecast = total_forecast,
                          daily_average = daily_average,
                          forecast_series = Some forecast,
                          trend_slope = None,
                          parameters = [(''alpha'', binary64 0.3)],
                          data_points = length demand_series \<rparr>)"

subsection \<open>Method selection\<close>

definition generate_forecast ::
    "es_fit \<Rightarrow> db \<Rightarrow> int \<Rightarrow> nat \<Rightarrow> string \<Rightarrow> string + forecast_result" where
  "generate_forecast fit d product_id horizon method =
     (if method = ''moving_average'' then
        moving_average_forecast d product_id horizon 14
      else if method = ''exponential_smoothing'' then
        exponential_smoothing_forecast fit d product_id horizon
      else if method = ''trend_analysis'' then
        trend_analysis_forecast d product_id horizon
      else if method = ''auto'' then
        (let df = get_historical_demand d product_id 90 in
         if length df < 7 then
           Inl ''Insufficient data for forecasting. Need at least 7 days of historical data.''
         else if length df < 14 then
           moving_average_forecast d product_id horizon (min 7 (length df))
         else
           (case exponential_smoothing_forecast fit d product_id horizon of
              Inr result \<Rightarrow> Inr result
            | Inl _ \<Rightarrow> moving_average_forecast d product_id horizon 14))
      else
        Inl (''Unknown forecast method: '' @ method))"

subsection \<open>Day-of-week seasonality\<close>








section \<open>Optimisation service\<close>

definition find_product :: "db \<Rightarrow> int \<Rightarrow> product option" where
  "find_product d product_id = find (\<lambda>p. p_id p = product_id) (products d)"

text \<open>The supplier of a product: \<^verbatim>\<open>if product.supplier_id:\<close> is false for a missing
  and for a zero id.\<close>

definition find_supplier :: "db \<Rightarrow> product \<Rightarrow> supplier option" where
  "find_supplier d p =
     (case p_supplier_id p of
        None \<Rightarrow> None
      | Some sid \<Rightarrow> if sid = 0 then None else find (\<lambda>s. s_id s = sid) (suppliers d))"

text \<open>The keys and values of the table are the doubles of the decimal literals.\<close>

definition z_scores :: "(real \<times> real) list" where
  "z_scores = [(binary64 0.90, binary64 1.28), (binary64 0.95, binary64 1.65),
               (binary64 0.99, binary64 2.33)]"

definition z_score_for :: "real \<Rightarrow> real" where
  "z_score_for service_level =
     (case map_of z_scores service_level of Some z \<Rightarrow> z | None \<Rightarrow> binary64 1.65)"

subsection \<open>Economic order quantity\<close>

record eoq_result =
  eoq_product_id :: int
  eoq_sku :: string
  eoq :: real
  eoq_annual_demand :: real
  number_of_orders_per_year :: real
  time_between_orders_days :: real
  total_annual_cost :: real
  eoq_parameters :: "(string \<times> real) list"

text \<open>Lines 42 to 49: the annual demand, supplied or extrapolated from a 90-day
  forecast.\<close>

definition estimate_annual_demand :: "es_fit \<Rightarrow> db \<Rightarrow> int \<Rightarrow> real option \<Rightarrow> string + real" where
  "estimate_annual_demand fit d product_id annual_demand =
     (case annual_demand of
        Some a \<Rightarrow> Inr a
      | None \<Rightarrow>
          (case generate_forecast fit d product_id 90 ''auto'' of
             Inl e \<Rightarrow> Inl (''Cannot estimate demand: '' @ e)
           | Inr forecast_result \<Rightarrow>
               Inr (fmul (fdiv (total_forecast forecast_result) 90) 365)))"

definition calculate_eoq ::
    "es_fit \<Rightarrow> db \<Rightarrow> int \<Rightarrow> real option \<Rightarrow> real \<Rightarrow> real \<Rightarrow> string + eoq_result" where
  "calculate_eoq fit d product_id annual_demand ordering_cost holding_cost_rate =
     (case find_product d product_id of
        None \<Rightarrow> Inl ''Product not found''
      | Some product \<Rightarrow>
          (case estimate_annual_demand fit d product_id annual_demand of
             Inl e \<Rightarrow> Inl e
           | Inr annual_demand \<Rightarrow>
               if annual_demand \<le> 0 then Inl ''Annual demand must be positive''
               else
                 let unit_cost = binary64 (p_unit_cost product);
                     holding_cost_per_unit = fmul unit_cost holding_cost_rate
                 in if holding_cost_per_unit = 0 then
                      Inl ''EOQ calculation failed: float division by zero''
                    else
                      let radicand =
                            fdiv (fmul (fmul 2 annual_demand) ordering_cost) holding_cost_per_unit
                      in if radicand < 0 then
                           Inl ''EOQ calculation failed: math domain error''
                         else
                           let eoq = fsqrt radicand
                           in if eoq = 0 then
                                Inl ''EOQ calculation failed: float division by zero''
                              else
                                let number_of_orders = fdiv annual_demand eoq
                                in if number_of_orders = 0 then
                                     Inl ''EOQ calculation failed: float division by zero''
                                   else
                                     let time_between_orders = fdiv 365 number_of_orders;
                                         total_annual_cost =
                                           fadd (fmul (fdiv annual_demand eoq) ordering_cost)
                                                (fmul (fdiv eoq 2) holding_cost_per_unit)
                                     in Inr \<lparr> eoq_product_id = product_id,
                                              eoq_sku = p_sku product,
                                              eoq = py_round eoq 2,
                                              eoq_annual_demand = py_round annual_demand 2,
                                              number_of_orders_per_year =
                                                py_round number_of_orders 2,
                                              time_between_orders_days =
                                                py_round time_between_orders 1,
                                              total_annual_cost = py_round total_annual_cost 2,
                                              eoq_parameters =
                                                [(''ordering_cost'', ordering_cost),
                                                 (''holding_cost_rate'', holding_cost_rate),
                                                 (''unit_cost'', unit_cost),
                                                 (''holding_cost_per_unit'',
                                                    py_round holding_cost_per_unit 2)] \<rparr>))"

subsection \<open>Reorder point\<close>

record reorder_result =
  rp_product_id :: int
  rp_sku :: string
  reorder_point :: real
  lead_time_demand :: real
  safety_stock :: real
  daily_demand :: real
  lead_time_days :: nat
  rp_service_level :: real
  supplier_name :: string
  rp_parameters :: "(string \<times> real) list"

definition calculate_reorder_point ::
    "es_fit \<Rightarrow> db \<Rightarrow> int \<Rightarrow> real \<Rightarrow> string + reorder_result" where
  "calculate_reorder_point fit d product_id service_level =
     (case find_product d product_id of
        None \<Rightarrow> Inl ''Product not found''
      | Some product \<Rightarrow>
          let supplier = find_supplier d product;
              lead_time_days = (case supplier of Some s \<Rightarrow> s_lead_time_days s | None \<Rightarrow> 7)
          in (case generate_forecast fit d product_id 30 ''auto'' of
               Inl e \<Rightarrow> Inl (''Cannot estimate demand: '' @ e)
             | Inr forecast_result \<Rightarrow>
                 let daily_demand = daily_average forecast_result in
                 if daily_demand \<le> 0 then Inl ''Daily demand must be positive''
                 else
                   let lead_time_demand = fmul daily_demand (binary64 (real lead_time_days));
                       demand_variability_factor = binary64 0.3;
                       z_score = z_score_for service_level;
                       safety_stock =
                         fmul (fmul z_score lead_time_demand) demand_variability_factor;
                       reorder_point = fadd lead_time_demand safety_stock
                   in Inr \<lparr> rp_product_id = product_id,
                            rp_sku = p_sku product,
                            reorder_point = py_round reorder_point 2,
                            lead_time_demand = py_round lead_time_demand 2,
                            safety_stock = py_round safety_stock 2,
                            daily_demand = py_round daily_demand 2,
                            lead_time_days = lead_time_days,
                            rp_service_level = service_level,
                            supplier_name =
                              (case supplier of Some s \<Rightarrow> s_name s | None \<Rightarrow> ''Unknown''),
                            rp_parameters =
                              [(''z_score'', z_score),
                               (''demand_variability_factor'', demand_variability_factor)] \<rparr>))"

subsection \<open>Safety stock\<close>




subsection \<open>Recommendations over the catalogue\<close>






section \<open>Example data\<close>

text \<open>Small stores used to run the services on concrete inputs.  A shipment is stored
  with a negative quantity, at noon of its day.\<close>

definition shipment :: "int \<Rightarrow> int \<Rightarrow> int \<Rightarrow> transaction" where
  "shipment product_id day qty =
     \<lparr> t_product_id = product_id, t_transaction_type = ''shipment'', t_quantity = - qty,
       t_timestamp = day * 86400 + 43200 \<rparr>"

definition widget :: product where
  "widget = \<lparr> p_id = 1, p_sku = ''W-1'', p_name = ''Widget'', p_unit_cost = 20,
              p_supplier_id = None, p_reorder_point = 10 \<rparr>"

definition store :: "product list \<Rightarrow> transaction list \<Rightarrow> int \<Rightarrow> db" where
  "store ps txs today =
     \<lparr> products = ps, suppliers = [], locations = [], inventory_rows = [],
       transactions = txs, utcnow = today * 86400 \<rparr>"

text \<open>Fourteen consecutive days with demand 10; five such days; ten days with demand
  falling from 10 to 1.\<close>

definition steady_db :: db where
  "steady_db = store [widget] (map (\<lambda>k. shipment 1 k 10) [0 .. 13]) 14"

definition five_day_db :: db where
  "five_day_db = store [widget] (map (\<lambda>k. shipment 1 k 10) [0 .. 4]) 5"

definition falling_db :: db where
  "falling_db = store [widget] (map (\<lambda>k. shipment 1 k (10 - k)) [0 .. 9]) 10"

text \<open>Two stand-ins for the smoothing library: one forecasts the mean of the series,
  one always raises.\<close>

definition mean_fit :: es_fit where
  "mean_fit m horizon = Inr (replicate horizon (mean (endog m)))"

definition failing_fit :: es_fit where
  "failing_fit m horizon = Inl ''optimisation did not converge''"

text \<open>A stand-in for the library that tells which model it was given: it forecasts 1
  for a model with a trend component and 0 for a model without.\<close>

definition trend_probe_fit :: es_fit where
  "trend_probe_fit m horizon = Inr (replicate horizon (if trend m = None then 0 else 1))"

text \<open>Fourteen shipments of 10, one every second day; thirty consecutive days of demand
  10; seven consecutive days without demand (shipments of quantity 0).\<close>

definition sparse_db :: db where
  "sparse_db = store [widget] (map (\<lambda>k. shipment 1 (2 * k) 10) [0 .. 13]) 27"


definition idle_db :: db where
  "idle_db = store [widget] (map (\<lambda>k. shipment 1 k 0) [0 .. 6]) 7"

text \<open>A product whose supplier delivers in one day, with a week of demand
  2, 2, 1, 1, 1, 1, 1.\<close>

definition gadget :: product where
  "gadget = \<lparr> p_id = 1, p_sku = ''G-1'', p_name = ''Gadget'', p_unit_cost = 20,
              p_supplier_id = Some 1, p_reorder_point = 10 \<rparr>"

definition next_day_supplier :: supplier where
  "next_day_supplier = \<lparr> s_id = 1, s_name = ''Next Day Ltd'', s_lead_time_days = 1 \<rparr>"

definition week_db :: db where
  "week_db =
     \<lparr> products = [gadget], suppliers = [next_day_supplier], locations = [],
       inventory_rows = [],
       transactions = map2 (shipment 1) [0 .. 6] [2, 2, 1, 1, 1, 1, 1],
       utcnow = 7 * 86400 \<rparr>"





text \<open>Seven shipments of 10, one every tenth day (days 0 to 60), and fourteen shipments
  of 10, one every sixth day (days 0 to 78).\<close>

definition scattered_db :: db where
  "scattered_db = store [widget] (map (\<lambda>k. shipment 1 (10 * k) 10) [0 .. 6]) 61"

definition thin_db :: db where
  "thin_db = store [widget] (map (\<lambda>k. shipment 1 (6 * k) 10) [0 .. 13]) 79"

text \<open>Seven days of demand 3 for a product without supplier, whose lead time is the
  default of 7 days; a product with a unit cost of 320000.\<close>

definition three_db :: db where
  "three_db = store [widget] (map (\<lambda>k. shipment 1 k 3) [0 .. 6]) 7"

definition crate :: product where
  "crate = \<lparr> p_id = 1, p_sku = ''K-1'', p_name = ''Crate'', p_unit_cost = 320000,
             p_supplier_id = None, p_reorder_point = 10 \<rparr>"

definition crate_db :: db where
  "crate_db = store [crate] [] 0"

section \<open>Properties of the rounding\<close>

text \<open>The exponent of a non-zero number, the value of \<open>binary64\<close> once the exponent is
  known, and the numbers that \<open>binary64\<close> leaves as they are: integers and dyadic
  fractions with a significand below \<open>2\<^sup>5\<^sup>3\<close>.\<close>

lemma two_powr_int: "(2::real) powr (real_of_int k) = 2 powi k"
  by (simp add: powr_real_of_int power_int_def power_divide inverse_eq_divide)

lemma binary64_exponent:
  assumes "x \<noteq> 0"
  shows "\<lfloor>log 2 \<bar>x\<bar>\<rfloor> = e \<longleftrightarrow> 2 powi e \<le> \<bar>x\<bar> \<and> \<bar>x\<bar> < 2 powi (e + 1)"
  using assms floor_log_eq_powr_iff [of "\<bar>x\<bar>" 2 e]
  by (simp add: two_powr_int [symmetric])

lemma round_half_even_nearest:
  assumes "\<bar>x - of_int n\<bar> < 1/2"
  shows "round_half_even x = n"
proof -
  consider "of_int n \<le> x" | "x < of_int n" by linarith
  then show ?thesis
  proof cases
    case 1
    with assms have "\<lfloor>x\<rfloor> = n"
      by (simp add: floor_eq_iff abs_less_iff; linarith)
    with assms 1 show ?thesis by (simp add: round_half_even_def Let_def)
  next
    case 2
    with assms have f: "\<lfloor>x\<rfloor> = n - 1"
      by (simp add: floor_eq_iff abs_less_iff; linarith)
    from assms 2 have "1/2 < x - of_int (n - 1)"
      by (simp add: abs_less_iff; linarith)
    with f show ?thesis by (simp add: round_half_even_def Let_def)
  qed
qed

lemma round_half_even_of_int [simp]: "round_half_even (of_int n) = n"
  by (rule round_half_even_nearest) simp

lemma round_half_even_ge_floor: "\<lfloor>x\<rfloor> \<le> round_half_even x"
  by (simp add: round_half_even_def Let_def)

lemma binary64_eval:
  assumes "2 powi e \<le> \<bar>x\<bar>" and "\<bar>x\<bar> < 2 powi (e + 1)"
  shows "binary64 x = of_int (round_half_even (x * 2 powi (52 - e))) * 2 powi (e - 52)"
proof -
  from assms have "x \<noteq> 0"
    by (smt (verit) zero_less_power_int)
  with assms have "\<lfloor>log 2 \<bar>x\<bar>\<rfloor> = e" by (simp add: binary64_exponent)
  with \<open>x \<noteq> 0\<close> show ?thesis by (simp add: binary64_def)
qed

lemma binary64_eval_round:
  assumes "2 ^ 52 \<le> \<bar>x\<bar> * 2 ^ p" and "\<bar>x\<bar> * 2 ^ p < 2 ^ 53"
    and "round_half_even (x * 2 ^ p) = n"
  shows "binary64 x = of_int n / 2 ^ p"
proof -
  have a: "(2::real) powi (52 - int p) = 2 ^ 52 / 2 ^ p"
    by (simp add: power_int_diff)
  have b: "(2::real) powi (52 - int p + 1) = 2 ^ 53 / 2 ^ p"
    by (simp add: power_int_diff power_int_add)
  have "2 powi (52 - int p) \<le> \<bar>x\<bar>" "\<bar>x\<bar> < 2 powi (52 - int p + 1)"
    using assms(1,2) unfolding a b by (simp_all add: field_simps)
  then have "binary64 x = of_int (round_half_even (x * 2 powi (52 - (52 - int p))))
                            * 2 powi (52 - int p - 52)"
    by (rule binary64_eval)
  also have "\<dots> = of_int (round_half_even (x * 2 ^ p)) / 2 ^ p"
    by (simp add: power_int_minus field_simps)
  finally show ?thesis using assms(3) by simp
qed

lemma binary64_eval_nat:
  assumes "2 ^ 52 \<le> \<bar>x\<bar> * 2 ^ p" and "\<bar>x\<bar> * 2 ^ p < 2 ^ 53"
    and "\<bar>x * 2 ^ p - of_int n\<bar> < 1/2"
  shows "binary64 x = of_int n / 2 ^ p"
  using assms(1,2) round_half_even_nearest [OF assms(3)] by (rule binary64_eval_round)

lemma binary64_0 [simp]: "binary64 0 = 0"
  by (simp add: binary64_def)

lemma binary64_double: "binary64 (2 * x) = 2 * binary64 x"
proof (cases "x = 0")
  case True
  then show ?thesis by simp
next
  case False
  define e where "e = \<lfloor>log 2 \<bar>x\<bar>\<rfloor>"
  from False have x: "2 powi e \<le> \<bar>x\<bar>" "\<bar>x\<bar> < 2 powi (e + 1)"
    using binary64_exponent [of x e] by (simp_all add: e_def)
  then have "2 powi (e + 1) \<le> \<bar>2 * x\<bar>" "\<bar>2 * x\<bar> < 2 powi (e + 1 + 1)"
    by (simp_all add: power_int_add)
  then have "binary64 (2 * x) = of_int (round_half_even (2 * x * 2 powi (52 - (e + 1))))
                                  * 2 powi (e + 1 - 52)"
    by (rule binary64_eval)
  also have "2 * x * 2 powi (52 - (e + 1)) = x * 2 powi (52 - e)"
    by (simp add: power_int_diff)
  also have "(2::real) powi (e + 1 - 52) = 2 * 2 powi (e - 52)"
    by (simp add: power_int_diff power_int_add)
  finally show ?thesis
    using binary64_eval [OF x] by simp
qed

lemma binary64_pos:
  assumes "0 < x"
  shows "0 < binary64 x"
proof -
  define e where "e = \<lfloor>log 2 \<bar>x\<bar>\<rfloor>"
  from assms have x: "2 powi e \<le> \<bar>x\<bar>" "\<bar>x\<bar> < 2 powi (e + 1)"
    using binary64_exponent [of x e] by (simp_all add: e_def)
  have "(1::real) \<le> 2 powi e * 2 powi (52 - e)"
    by (simp add: power_int_add [symmetric])
  also have "\<dots> \<le> x * 2 powi (52 - e)"
    using x(1) assms by (intro mult_right_mono) simp_all
  finally have "1 \<le> \<lfloor>x * 2 powi (52 - e)\<rfloor>" by simp
  then have "1 \<le> round_half_even (x * 2 powi (52 - e))"
    using round_half_even_ge_floor [of "x * 2 powi (52 - e)"] by linarith
  then have "0 < of_int (round_half_even (x * 2 powi (52 - e))) * (2::real) powi (e - 52)"
    by (intro mult_pos_pos) simp_all
  then show ?thesis using binary64_eval [OF x] by simp
qed

lemma binary64_nonneg: "0 \<le> x \<Longrightarrow> 0 \<le> binary64 x"
  using binary64_pos [of x] by (cases "x = 0") simp_all


lemma binary64_exact:
  assumes "\<bar>m\<bar> < 2 ^ 53"
  shows "binary64 (of_int m * 2 powi k) = of_int m * 2 powi k"
proof (cases "m = 0")
  case True
  then show ?thesis by simp
next
  case False
  define x :: real where "x = of_int m * 2 powi k"
  define e where "e = \<lfloor>log 2 \<bar>x\<bar>\<rfloor>"
  from False have nz: "x \<noteq> 0" by (simp add: x_def)
  then have x: "2 powi e \<le> \<bar>x\<bar>" "\<bar>x\<bar> < 2 powi (e + 1)"
    using binary64_exponent [of x e] by (simp_all add: e_def)
  have "real_of_int \<bar>m\<bar> < 2 ^ 53"
    using assms by (metis of_int_less_iff of_int_numeral of_int_power)
  then have "\<bar>x\<bar> < 2 ^ 53 * 2 powi k"
    by (simp add: x_def abs_mult)
  also have "\<dots> = 2 powi (53 + k)" by (simp add: power_int_add)
  finally have "(2::real) powi e < 2 powi (53 + k)" using x(1) by linarith
  then have "e < 53 + k"
    using power_int_increasing [of "53 + k" e "2::real"] by (cases "e < 53 + k") simp_all
  then have "0 \<le> k + 52 - e" by simp
  then obtain q :: nat where q: "k + 52 - e = int q"
    using nonneg_int_cases by blast
  have "x * 2 powi (52 - e) = of_int m * (2 powi k * 2 powi (52 - e))"
    by (simp add: x_def)
  also have "2 powi k * 2 powi (52 - e) = (2::real) powi (k + 52 - e)"
    by (simp add: power_int_add [symmetric] algebra_simps)
  also have "\<dots> = 2 ^ q" by (simp add: q)
  finally have "x * 2 powi (52 - e) = of_int (m * 2 ^ q)" by simp
  then have "round_half_even (x * 2 powi (52 - e)) = m * 2 ^ q"
    by (simp only: round_half_even_of_int)
  then have "binary64 x = of_int (m * 2 ^ q) * 2 powi (e - 52)"
    using binary64_eval [OF x] by simp
  also have "\<dots> = of_int m * (2 powi (k + 52 - e) * 2 powi (e - 52))"
    by (simp add: q)
  also have "2 powi (k + 52 - e) * 2 powi (e - 52) = (2::real) powi k"
    by (simp add: power_int_add [symmetric])
  finally show ?thesis by (simp add: x_def)
qed

lemma binary64_of_int:
  assumes "\<bar>m\<bar> < 2 ^ 53"
  shows "binary64 (of_int m) = of_int m"
  using binary64_exact [OF assms, of 0] by simp

lemma binary64_numeral:
  assumes "(numeral k :: int) < 2 ^ 53"
  shows "binary64 (numeral k) = numeral k"
  using binary64_of_int [of "numeral k"] assms by simp

lemma binary64_1 [simp]: "binary64 1 = 1"
  using binary64_of_int [of 1] by simp

lemma binary64_of_nat:
  assumes "n < 2 ^ 53"
  shows "binary64 (real n) = real n"
proof -
  from assms have "\<bar>int n\<bar> < 2 ^ 53"
    by (metis abs_of_nat of_nat_less_iff of_nat_numeral of_nat_power)
  then show ?thesis using binary64_of_int [of "int n"] by simp
qed

lemma binary64_dyadic:
  assumes "\<bar>m\<bar> < 2 ^ 53"
  shows "binary64 (of_int m / 2 ^ p) = of_int m / 2 ^ p"
  using binary64_exact [OF assms, of "- int p"] by (simp add: power_int_minus field_simps)

lemmas float_ops = fadd_def fsub_def fmul_def fdiv_def fsqrt_def

lemma binary64_half_quarter:
  "binary64 (1 / 2) = 1 / 2" "binary64 (1 / 4) = 1 / 4" "binary64 (3 / 2) = 3 / 2"
  using binary64_dyadic [of 1 1] binary64_dyadic [of 1 2] binary64_dyadic [of 3 1]
  by simp_all

section \<open>Evaluation of the examples\<close>

lemma replicate_7: "replicate 7 x = [x, x, x, x, x, x, x]"
  by (simp add: numeral_eq_Suc)



lemma steady_demand_90:
  "get_historical_demand steady_db 1 90 =
     [(0, 10), (1, 10), (2, 10), (3, 10), (4, 10), (5, 10), (6, 10), (7, 10),
      (8, 10), (9, 10), (10, 10), (11, 10), (12, 10), (13, 10)]"
  by code_simp

lemma asfreq_steady:
  "asfreq [(0, 10), (1, 10), (2, 10), (3, 10), (4, 10), (5, 10), (6, 10), (7, 10),
           (8, 10), (9, 10), (10, 10), (11, 10), (12, 10), (13, 10)] =
     [(0, 10), (1, 10), (2, 10), (3, 10), (4, 10), (5, 10), (6, 10), (7, 10),
      (8, 10), (9, 10), (10, 10), (11, 10), (12, 10), (13, 10)]"
  by code_simp

lemma falling_demand_60: "length (get_historical_demand falling_db 1 60) = 10"
  by code_simp

lemma week_demand_90:
  "get_historical_demand week_db 1 90 = [(0, 2), (1, 2), (2, 1), (3, 1), (4, 1), (5, 1), (6, 1)]"
  by code_simp

lemma week_demand_14:
  "get_historical_demand week_db 1 14 = [(0, 2), (1, 2), (2, 1), (3, 1), (4, 1), (5, 1), (6, 1)]"
  by code_simp



lemma steady_failing_fit:
  "exponential_smoothing_forecast failing_fit steady_db 1 7 =
     Inl ''Forecast calculation failed: optimisation did not converge''"
  by (simp add: exponential_smoothing_forecast_def steady_demand_90 asfreq_steady
      failing_fit_def Let_def)

text \<open>A week of demand 2, 2, 1, 1, 1, 1, 1: the daily average is the double of 9/7, for
  every horizon.\<close>

lemma binary64_9_7: "binary64 (9 / 7) = 5790342378047781 / 2 ^ 52"
  using binary64_eval_nat [of "9 / 7" 52 5790342378047781] by simp

lemma week_moving_average:
  "moving_average_forecast week_db 1 horizon 7 =
     Inr \<lparr> fr_product_id = 1, forecast_method = ''moving_average'', horizon_days = horizon,
           total_forecast = fmul (5790342378047781 / 2 ^ 52) (binary64 (real horizon)),
           daily_average = 5790342378047781 / 2 ^ 52, forecast_series = None,
           trend_slope = None, parameters = [(''window'', 7)], data_points = 7 \<rparr>"
  by (simp add: moving_average_forecast_def week_demand_14 rolling_mean_last_def
      float_mean_def fdiv_def Let_def binary64_9_7)

section \<open>Properties of the forecasting service\<close>

subsection \<open>Totals and daily averages\<close>






subsection \<open>Automatic choice of the method\<close>

text \<open>The three branches of \<open>auto\<close> mode, on the number of days with a shipment in
  the last 90 days: an error below 7 days, the moving average with window
  \<open>min 7 available_days\<close> from 7 to 13 days, and from 14 days on exponential smoothing,
  or the moving average with window 14 when exponential smoothing returns an error.
  Either call of the moving average may itself return an error.\<close>

lemma generate_forecast_auto_branches:
  "(length (get_historical_demand d product_id 90) < 7 \<longrightarrow>
      generate_forecast fit d product_id horizon ''auto'' =
        Inl ''Insufficient data for forecasting. Need at least 7 days of historical data.'')
   \<and> (7 \<le> length (get_historical_demand d product_id 90)
        \<and> length (get_historical_demand d product_id 90) < 14 \<longrightarrow>
      generate_forecast fit d product_id horizon ''auto'' =
        moving_average_forecast d product_id horizon
          (min 7 (length (get_historical_demand d product_id 90))))
   \<and> (14 \<le> length (get_historical_demand d product_id 90) \<longrightarrow>
        (\<forall>r. exponential_smoothing_forecast fit d product_id horizon = Inr r \<longrightarrow>
           generate_forecast fit d product_id horizon ''auto'' = Inr r)
      \<and> (\<forall>e. exponential_smoothing_forecast fit d product_id horizon = Inl e \<longrightarrow>
           generate_forecast fit d product_id horizon ''auto'' =
             moving_average_forecast d product_id horizon 14))"
  by (simp add: generate_forecast_def Let_def)

text \<open>The example of the specification: five days of data give the error that names 7
  as the minimum.\<close>

lemma five_day_demand_90: "length (get_historical_demand five_day_db 1 90) = 5"
  by code_simp

lemma five_day_auto:
  "generate_forecast fit five_day_db 1 7 ''auto'' =
     Inl ''Insufficient data for forecasting. Need at least 7 days of historical data.''"
  by (simp add: generate_forecast_def five_day_demand_90)

lemma scattered_demand_90:
  "get_historical_demand scattered_db 1 90 =
     [(0, 10), (10, 10), (20, 10), (30, 10), (40, 10), (50, 10), (60, 10)]"
  by code_simp

lemma scattered_demand_14:
  "get_historical_demand scattered_db 1 14 = [(50, 10), (60, 10)]"
  by code_simp

lemma thin_demand_90: "length (get_historical_demand thin_db 1 90) = 14"
  by code_simp

lemma thin_asfreq_90: "length (asfreq (get_historical_demand thin_db 1 90)) = 79"
  by code_simp

lemma thin_demand_28: "length (get_historical_demand thin_db 1 28) = 5"
  by code_simp

lemma string_of_nat_7: "string_of_nat 7 = ''7''"
  by code_simp

lemma string_of_nat_14: "string_of_nat 14 = ''14''"
  by code_simp

text \<open>
  Claim C2.  In \<open>auto\<close> mode a product with 7 to 13 days of data should get the
  moving-average forecast, and a product with 14 days or more the moving-average
  forecast when exponential smoothing fails.  The days are counted over the last 90 days,
  but the moving average reads the demand again over twice its window only.  With seven
  shipments, one every tenth day, \<open>auto\<close> mode finds 7 days of data and calls the moving
  average with window \<open>min 7 7\<close>, which finds 2 days in the last 14 and returns an error
  in place of a forecast.  With fourteen shipments, one every sixth day, and a smoothing
  library that raises, the moving average with window 14 finds 5 days in the last 28 and
  returns an error as well.
\<close>

theorem auto_mode_moving_average_fails:
  "length (get_historical_demand scattered_db 1 90) = 7
   \<and> generate_forecast mean_fit scattered_db 1 7 ''auto''
       = Inl ''Insufficient data. Need at least 7 days of data.''
   \<and> length (get_historical_demand thin_db 1 90) = 14
   \<and> exponential_smoothing_forecast failing_fit thin_db 1 7
       = Inl ''Forecast calculation failed: optimisation did not converge''
   \<and> generate_forecast failing_fit thin_db 1 7 ''auto''
       = Inl ''Insufficient data. Need at least 14 days of data.''"
proof -
  have es: "exponential_smoothing_forecast failing_fit thin_db 1 7
              = Inl ''Forecast calculation failed: optimisation did not converge''"
    by (simp add: exponential_smoothing_forecast_def thin_demand_90 thin_asfreq_90
        failing_fit_def Let_def)
  have ma7: "moving_average_forecast scattered_db 1 7 7
               = Inl ''Insufficient data. Need at least 7 days of data.''"
    by (simp add: moving_average_forecast_def scattered_demand_14 string_of_nat_7)
  have ma14: "moving_average_forecast thin_db 1 7 14
                = Inl ''Insufficient data. Need at least 14 days of data.''"
    by (simp add: moving_average_forecast_def thin_demand_28 string_of_nat_14)
  have n: "length (get_historical_demand scattered_db 1 90) = 7"
    by (simp add: scattered_demand_90)
  show ?thesis
    by (simp add: generate_forecast_def n thin_demand_90 es ma7 ma14 Let_def)
qed

subsection \<open>Trend analysis never forecasts negative demand\<close>

lemma sum_list_max0_nonneg: "0 \<le> sum_list (map (\<lambda>v. max v (0::real)) xs)"
  by (rule sum_list_nonneg) auto

lemma fdiv_nonneg: "0 \<le> x \<Longrightarrow> 0 \<le> y \<Longrightarrow> 0 \<le> fdiv x y"
  by (simp add: fdiv_def binary64_nonneg)

text \<open>
  Claim C7.  With at least 10 days of data in the last 60 days, \<open>trend_analysis_forecast\<close>
  returns a result whose per-day series has one value per horizon day, none of them
  negative, whatever the slope of the fitted line; the total is not negative, and for a
  horizon of at least one day neither is the daily average.
\<close>

theorem trend_analysis_forecast_nonneg:
  assumes "10 \<le> length (get_historical_demand d product_id 60)"
  shows "\<exists>r s. trend_analysis_forecast d product_id horizon = Inr r
           \<and> forecast_series r = Some s
           \<and> length s = horizon
           \<and> (\<forall>v \<in> set s. 0 \<le> v)
           \<and> 0 \<le> total_forecast r
           \<and> (1 \<le> horizon \<longrightarrow> 0 \<le> daily_average r)"
  using assms
  by (simp add: trend_analysis_forecast_def Let_def sum_list_max0_nonneg fdiv_nonneg
      binary64_nonneg del: map_map)

theorem trend_analysis_forecast_nonneg_witness:
  "10 \<le> length (get_historical_demand falling_db 1 60)
   \<and> (\<exists>r s. trend_analysis_forecast falling_db 1 7 = Inr r
           \<and> forecast_series r = Some s
           \<and> length s = 7
           \<and> (\<forall>v \<in> set s. 0 \<le> v)
           \<and> 0 \<le> total_forecast r
           \<and> ((1::nat) \<le> 7 \<longrightarrow> 0 \<le> daily_average r))"
  using trend_analysis_forecast_nonneg [of falling_db 1 7] falling_demand_60 by simp

subsection \<open>The model fitted by exponential smoothing\<close>

text \<open>The first model always has an additive trend, whatever the length of the
  series, and no model has a seasonal component; the model without trend is fitted only
  after the first one raised.\<close>

lemma es_first_model_trend:
  "trend (es_first_model demand_series) = Some ''add''"
  "seasonal (es_first_model demand_series) = None"
  by (simp_all add: es_first_model_def)

lemma es_fallback_model_trend:
  "trend (es_fallback_model demand_series) = None"
  "seasonal (es_fallback_model demand_series) = None"
  by (simp_all add: es_fallback_model_def)

text \<open>
  Claim C3.  A resampled series of 14 to 27 days should be fitted without a trend
  component.  On fourteen consecutive days of demand the first model handed to the
  library has \<^verbatim>\<open>trend='add'\<close>: both branches of the test on 28 days build the same
  model, and the forecast returned is the one of the model with trend.
\<close>

theorem short_series_fitted_with_trend:
  "length (asfreq (get_historical_demand steady_db 1 90)) = 14
   \<and> trend (es_first_model (map (\<lambda>r. real_of_int (snd r))
                (asfreq (get_historical_demand steady_db 1 90)))) = Some ''add''
   \<and> map_sum id forecast_series (exponential_smoothing_forecast trend_probe_fit steady_db 1 7)
       = Inr (Some [1, 1, 1, 1, 1, 1, 1])"
  by (simp add: exponential_smoothing_forecast_def steady_demand_90 asfreq_steady
      es_first_model_def trend_probe_fit_def replicate_7 Let_def)

subsection \<open>The window of the moving average\<close>

text \<open>With a window of at least one row the rolling mean of the last row is defined, and
  the forecast is the mean of the demands of the last \<open>window\<close> rows of the frame, that
  is, of the last \<open>window\<close> days that have a shipment.\<close>

lemma moving_average_forecast_rows:
  assumes "moving_average_forecast d product_id horizon window = Inr r" and "1 \<le> window"
  shows "daily_average r =
           float_mean (map (\<lambda>row. real_of_int (snd row))
                  (drop (length (get_historical_demand d product_id (window * 2)) - window)
                     (get_historical_demand d product_id (window * 2))))"
    and "total_forecast r = fmul (daily_average r) (binary64 (real horizon))"
  using assms
  by (auto simp add: moving_average_forecast_def rolling_mean_last_def Let_def drop_map
      split: if_splits)

lemma sparse_demand_28:
  "get_historical_demand sparse_db 1 28 =
     [(0, 10), (2, 10), (4, 10), (6, 10), (8, 10), (10, 10), (12, 10), (14, 10),
      (16, 10), (18, 10), (20, 10), (22, 10), (24, 10), (26, 10)]"
  by code_simp

lemma asfreq_sparse:
  "asfreq [(0, 10), (2, 10), (4, 10), (6, 10), (8, 10), (10, 10), (12, 10), (14, 10),
      (16, 10), (18, 10), (20, 10), (22, 10), (24, 10), (26, 10)] =
     [(0, 10), (1, 0), (2, 10), (3, 0), (4, 10), (5, 0), (6, 10), (7, 0), (8, 10), (9, 0),
      (10, 10), (11, 0), (12, 10), (13, 0), (14, 10), (15, 0), (16, 10), (17, 0), (18, 10),
      (19, 0), (20, 10), (21, 0), (22, 10), (23, 0), (24, 10), (25, 0), (26, 10)]"
  by code_simp

text \<open>
  Claim C4.  The moving average should run over the last \<open>window\<close> calendar days, a day
  without a demand record counting as zero.  With one shipment of 10 every second day,
  the last 14 calendar days hold 7 shipments and their average is 5; the forecast
  averages the last 14 rows of the frame instead and returns a daily average of 10 and,
  for a horizon of 7 days, a total of 70.
\<close>

theorem moving_average_skips_empty_days:
  "map_sum id daily_average (moving_average_forecast sparse_db 1 7 14) = Inr 10
   \<and> map_sum id total_forecast (moving_average_forecast sparse_db 1 7 14) = Inr 70
   \<and> rolling_mean_last 14
        (map (\<lambda>r. real_of_int (snd r)) (asfreq (get_historical_demand sparse_db 1 28)))
       = Some 5"
  by (simp add: moving_average_forecast_def sparse_demand_28 asfreq_sparse
      rolling_mean_last_def float_mean_def float_ops binary64_numeral)

subsection \<open>Seasonal patterns\<close>
















section \<open>Properties of the optimisation service\<close>

subsection \<open>Rounding\<close>


lemma py_round_whole:
  assumes "\<bar>n\<bar> < 2 ^ 53"
  shows "py_round (of_int n) k = of_int n"
proof -
  have "round_half_even (of_int n * 10 ^ k) = n * 10 ^ k"
    using round_half_even_of_int [of "n * 10 ^ k"] by simp
  then show ?thesis
    using binary64_of_int [OF assms] by (simp add: py_round_def)
qed

lemma sqrt_40000: "sqrt 40000 = 200"
  by (rule real_sqrt_unique) simp_all


text \<open>The doubles of the decimal literals of the examples.\<close>

lemma binary64_0_9: "binary64 0.9 = 8106479329266893 / 2 ^ 53"
  using binary64_eval_nat [of "0.9" 53 8106479329266893] by simp

lemma binary64_0_95: "binary64 0.95 = 8556839292003942 / 2 ^ 53"
  using binary64_eval_nat [of "0.95" 53 8556839292003942] by simp

lemma binary64_1_65: "binary64 1.65 = 7430939385161318 / 2 ^ 52"
  using binary64_eval_nat [of "1.65" 52 7430939385161318] by simp

lemma binary64_0_3: "binary64 0.3 = 5404319552844595 / 2 ^ 54"
  using binary64_eval_nat [of "0.3" 54 5404319552844595] by simp

lemma binary64_1_92: "binary64 1.92 = 8646911284551352 / 2 ^ 52"
  using binary64_eval_nat [of "1.92" 52 8646911284551352] by simp

lemma binary64_1_29: "binary64 1.29 = 5809643519307940 / 2 ^ 52"
  using binary64_eval_nat [of "1.29" 52 5809643519307940] by simp

lemma binary64_0_64: "binary64 0.64 = 5764607523034235 / 2 ^ 53"
  using binary64_eval_nat [of "0.64" 53 5764607523034235] by simp

lemma binary64_141_42: "binary64 141.42 = 4975773900802621 / 2 ^ 45"
  using binary64_eval_nat [of "141.42" 45 4975773900802621] by simp

text \<open>The table of z-scores as a chain of tests.\<close>

lemma z_score_for_table:
  "z_score_for service_level =
     (if service_level = binary64 0.90 then binary64 1.28
      else if service_level = binary64 0.95 then binary64 1.65
      else if service_level = binary64 0.99 then binary64 2.33 else binary64 1.65)"
  by (simp add: z_score_for_def z_scores_def)

lemma z_score_for_0_95: "z_score_for (binary64 0.95) = binary64 1.65"
  using binary64_0_9 binary64_0_95 by (simp add: z_score_for_table)

subsection \<open>Evaluation of the examples\<close>

lemma week_forecast:
  "generate_forecast fit week_db 1 30 ''auto'' =
     Inr \<lparr> fr_product_id = 1, forecast_method = ''moving_average'', horizon_days = 30,
           total_forecast = fmul (5790342378047781 / 2 ^ 52) 30,
           daily_average = 5790342378047781 / 2 ^ 52, forecast_series = None,
           trend_slope = None, parameters = [(''window'', 7)], data_points = 7 \<rparr>"
proof -
  have "length (get_historical_demand week_db 1 90) = 7"
    by (simp add: week_demand_90)
  then show ?thesis
    by (simp add: generate_forecast_def week_moving_average binary64_numeral)
qed

lemma week_product: "find_product week_db 1 = Some gadget"
  by (simp add: find_product_def week_db_def gadget_def)

lemma week_supplier: "find_supplier week_db gadget = Some next_day_supplier"
  by (simp add: find_supplier_def week_db_def gadget_def next_day_supplier_def)

lemma gadget_fields: "p_sku gadget = ''G-1''" "p_unit_cost gadget = 20"
  by (simp_all add: gadget_def)

lemma next_day_supplier_fields:
  "s_name next_day_supplier = ''Next Day Ltd''" "s_lead_time_days next_day_supplier = 1"
  by (simp_all add: next_day_supplier_def)

text \<open>The reorder point of the week of demand 2, 2, 1, 1, 1, 1, 1 with a lead time of one
  day: the lead-time demand is the double 1.2857142857142858, the safety stock the double
  0.6364285714285715 and their sum the double 1.9221428571428572.\<close>

lemma week_lead_time_demand:
  "fmul (5790342378047781 / 2 ^ 52) 1 = 5790342378047781 / 2 ^ 52"
  using binary64_dyadic [of 5790342378047781 52] by (simp add: fmul_def)

lemma week_safety_stock:
  "fmul (fmul (binary64 1.65) (5790342378047781 / 2 ^ 52)) (binary64 0.3)
     = 5732438954267303 / 2 ^ 53"
proof -
  have "fmul (7430939385161318 / 2 ^ 52) (5790342378047781 / 2 ^ 52)
          = 4777032461889419 / 2 ^ 51"
    unfolding fmul_def
    using binary64_eval_nat [of "7430939385161318 / 2 ^ 52 * (5790342378047781 / 2 ^ 52)"
        51 4777032461889419]
    by simp
  moreover have "fmul (4777032461889419 / 2 ^ 51) (5404319552844595 / 2 ^ 54)
          = 5732438954267303 / 2 ^ 53"
    unfolding fmul_def
    using binary64_eval_nat [of "4777032461889419 / 2 ^ 51 * (5404319552844595 / 2 ^ 54)"
        53 5732438954267303]
    by simp
  ultimately show ?thesis
    unfolding binary64_1_65 binary64_0_3 by (simp only:)
qed

lemma week_sum:
  "fadd (5790342378047781 / 2 ^ 52) (5732438954267303 / 2 ^ 53) = 8656561855181432 / 2 ^ 52"
  unfolding fadd_def
  using binary64_eval_round [of "5790342378047781 / 2 ^ 52 + 5732438954267303 / 2 ^ 53"
      52 8656561855181432]
  by (simp add: round_half_even_def)

lemma week_rounded:
  "py_round (5790342378047781 / 2 ^ 52) 2 = binary64 1.29"
  "py_round (5732438954267303 / 2 ^ 53) 2 = binary64 0.64"
  "py_round (8656561855181432 / 2 ^ 52) 2 = binary64 1.92"
  by (simp_all add: py_round_def round_half_even_def Let_def)

lemma week_reorder_point:
  "calculate_reorder_point fit week_db 1 (binary64 0.95) =
     Inr \<lparr> rp_product_id = 1, rp_sku = ''G-1'', reorder_point = binary64 1.92,
           lead_time_demand = binary64 1.29, safety_stock = binary64 0.64,
           daily_demand = binary64 1.29, lead_time_days = 1,
           rp_service_level = binary64 0.95, supplier_name = ''Next Day Ltd'',
           rp_parameters = [(''z_score'', binary64 1.65),
                            (''demand_variability_factor'', binary64 0.3)] \<rparr>"
proof -
  define D :: real where "D = 5790342378047781 / 2 ^ 52"
  define S :: real where "S = 5732438954267303 / 2 ^ 53"
  define R :: real where "R = 8656561855181432 / 2 ^ 52"
  have f: "generate_forecast fit week_db 1 30 ''auto'' =
     Inr \<lparr> fr_product_id = 1, forecast_method = ''moving_average'', horizon_days = 30,
           total_forecast = fmul D 30, daily_average = D, forecast_series = None,
           trend_slope = None, parameters = [(''window'', 7)], data_points = 7 \<rparr>"
    unfolding D_def by (rule week_forecast)
  have pos: "0 < D" by (simp add: D_def)
  have l: "fmul D 1 = D"
    unfolding D_def by (rule week_lead_time_demand)
  have s: "fmul (fmul (binary64 1.65) D) (binary64 0.3) = S"
    unfolding D_def S_def by (rule week_safety_stock)
  have a: "fadd D S = R"
    unfolding D_def S_def R_def by (rule week_sum)
  have r: "py_round D 2 = binary64 1.29" "py_round S 2 = binary64 0.64"
    "py_round R 2 = binary64 1.92"
    unfolding D_def S_def R_def by (rule week_rounded)+
  show ?thesis
    using pos z_score_for_0_95 l s a r
    by (simp add: calculate_reorder_point_def week_product week_supplier f Let_def
        gadget_fields next_day_supplier_fields)
qed

lemma steady_product: "find_product steady_db 1 = Some widget"
  by (simp add: find_product_def steady_db_def store_def widget_def)

lemma widget_fields:
  "p_unit_cost widget = 20" "p_sku widget = ''W-1''" "p_supplier_id widget = None"
  by (simp_all add: widget_def)

lemma idle_product: "find_product idle_db 1 = Some widget"
  by (simp add: find_product_def idle_db_def store_def widget_def)

lemma idle_demand_90:
  "get_historical_demand idle_db 1 90 = [(0, 0), (1, 0), (2, 0), (3, 0), (4, 0), (5, 0), (6, 0)]"
  by code_simp

lemma idle_demand_14:
  "get_historical_demand idle_db 1 14 = [(0, 0), (1, 0), (2, 0), (3, 0), (4, 0), (5, 0), (6, 0)]"
  by code_simp

lemma idle_forecast:
  "generate_forecast fit idle_db 1 horizon ''auto'' =
     Inr \<lparr> fr_product_id = 1, forecast_method = ''moving_average'', horizon_days = horizon,
           total_forecast = 0, daily_average = 0, forecast_series = None,
           trend_slope = None, parameters = [(''window'', 7)], data_points = 7 \<rparr>"
  by (simp add: generate_forecast_def idle_demand_90 moving_average_forecast_def idle_demand_14
      rolling_mean_last_def float_mean_def float_ops)

text \<open>Seven days of demand 3 and a lead time of 7 days: the lead-time demand is 21, the
  safety stock the double 10.394999999999998 and the reorder point the double
  31.394999999999996, reported as 10.39 and 31.39 (the exact products would be 10.395
  and 31.395).\<close>

lemma three_demand:
  "get_historical_demand three_db 1 90 = [(0, 3), (1, 3), (2, 3), (3, 3), (4, 3), (5, 3), (6, 3)]"
  "get_historical_demand three_db 1 14 = [(0, 3), (1, 3), (2, 3), (3, 3), (4, 3), (5, 3), (6, 3)]"
  by code_simp+

lemma three_forecast:
  "generate_forecast fit three_db 1 30 ''auto'' =
     Inr \<lparr> fr_product_id = 1, forecast_method = ''moving_average'', horizon_days = 30,
           total_forecast = 90, daily_average = 3, forecast_series = None,
           trend_slope = None, parameters = [(''window'', 7)], data_points = 7 \<rparr>"
proof -
  have "length (get_historical_demand three_db 1 90) = 7"
    by (simp add: three_demand)
  then show ?thesis
    by (simp add: generate_forecast_def moving_average_forecast_def three_demand
        rolling_mean_last_def float_mean_def float_ops binary64_numeral)
qed

lemma three_product: "find_product three_db 1 = Some widget"
  by (simp add: find_product_def three_db_def store_def widget_def)

lemma three_supplier: "find_supplier three_db widget = None"
  by (simp add: find_supplier_def widget_def)

lemma three_safety_stock:
  "fmul (fmul (binary64 1.65) 21) (binary64 0.3) = 5851864765814538 / 2 ^ 49"
proof -
  have "fmul (7430939385161318 / 2 ^ 52) 21 = 4876553971512115 / 2 ^ 47"
    unfolding fmul_def
    using binary64_eval_nat [of "7430939385161318 / 2 ^ 52 * 21" 47 4876553971512115]
    by simp
  moreover have "fmul (4876553971512115 / 2 ^ 47) (5404319552844595 / 2 ^ 54)
          = 5851864765814538 / 2 ^ 49"
    unfolding fmul_def
    using binary64_eval_nat [of "4876553971512115 / 2 ^ 47 * (5404319552844595 / 2 ^ 54)"
        49 5851864765814538]
    by simp
  ultimately show ?thesis
    unfolding binary64_1_65 binary64_0_3 by (simp only:)
qed

lemma three_sum:
  "fadd 21 (5851864765814538 / 2 ^ 49) = 8836906893831045 / 2 ^ 48"
  unfolding fadd_def
  using binary64_eval_nat [of "21 + 5851864765814538 / 2 ^ 49" 48 8836906893831045]
  by simp

lemma three_rounded:
  "py_round (5851864765814538 / 2 ^ 49) 2 = binary64 10.39"
  "py_round (8836906893831045 / 2 ^ 48) 2 = binary64 31.39"
  by (simp_all add: py_round_def round_half_even_def Let_def)

lemma three_reorder_point:
  "calculate_reorder_point fit three_db 1 (binary64 0.95) =
     Inr \<lparr> rp_product_id = 1, rp_sku = ''W-1'', reorder_point = binary64 31.39,
           lead_time_demand = 21, safety_stock = binary64 10.39,
           daily_demand = 3, lead_time_days = 7,
           rp_service_level = binary64 0.95, supplier_name = ''Unknown'',
           rp_parameters = [(''z_score'', binary64 1.65),
                            (''demand_variability_factor'', binary64 0.3)] \<rparr>"
proof -
  define S :: real where "S = 5851864765814538 / 2 ^ 49"
  define R :: real where "R = 8836906893831045 / 2 ^ 48"
  have l: "fmul 3 7 = 21"
    by (simp add: fmul_def binary64_numeral)
  have s: "fmul (fmul (binary64 1.65) 21) (binary64 0.3) = S"
    unfolding S_def by (rule three_safety_stock)
  have a: "fadd 21 S = R"
    unfolding S_def R_def by (rule three_sum)
  have r: "py_round S 2 = binary64 10.39" "py_round R 2 = binary64 31.39"
    unfolding S_def R_def by (rule three_rounded)+
  have w: "py_round 21 2 = 21" "py_round 3 2 = 3"
    using py_round_whole [of 21 2] py_round_whole [of 3 2] by simp_all
  show ?thesis
    using z_score_for_0_95 l s a r w
    by (simp add: calculate_reorder_point_def three_product three_supplier three_forecast
        Let_def widget_fields binary64_numeral)
qed

subsection \<open>Reorder point\<close>

text \<open>
  Claim C6, as the code has it.  A successful result of \<open>calculate_reorder_point\<close> reports
  each quantity rounded to two decimals, and every operation is one of double arithmetic.
  Let \<open>d\<close> be the daily average of the 30-day forecast, between \<open>2\<^sup>-\<^sup>5\<^sup>0\<^sup>0\<close> and
  \<open>2\<^sup>5\<^sup>0\<^sup>0\<close> so that no operation overflows or underflows, let the lead time be below
  \<open>2\<^sup>5\<^sup>3\<close> days, \<open>ltd\<close> the double product of \<open>d\<close> and the lead time, \<open>z\<close> the entry of
  the table \<open>{0.90: 1.28, 0.95: 1.65, 0.99: 2.33}\<close> (1.65 for any other service level)
  and \<open>ss\<close> the double product \<open>(z * ltd) * 0.3\<close>.  Then the result has
  \<open>daily_demand = round(d, 2)\<close>, \<open>lead_time_demand = round(ltd, 2)\<close>,
  \<open>safety_stock = round(ss, 2)\<close> and \<open>reorder_point = round(ltd + ss, 2)\<close>, the sum being
  the double sum of the values before rounding.
\<close>

theorem calculate_reorder_point_rounded:
  assumes "generate_forecast fit d product_id 30 ''auto'' = Inr forecast_result"
    and "calculate_reorder_point fit d product_id service_level = Inr r"
    and "1 / 2 ^ 500 \<le> daily_average forecast_result"
    and "daily_average forecast_result \<le> 2 ^ 500"
    and "lead_time_days r < 2 ^ 53"
  shows "let z = (if service_level = binary64 0.90 then binary64 1.28
                  else if service_level = binary64 0.95 then binary64 1.65
                  else if service_level = binary64 0.99 then binary64 2.33
                  else binary64 1.65);
             ltd = fmul (daily_average forecast_result) (real (lead_time_days r));
             ss = fmul (fmul z ltd) (binary64 0.3)
         in daily_demand r = py_round (daily_average forecast_result) 2
            \<and> lead_time_demand r = py_round ltd 2
            \<and> safety_stock r = py_round ss 2
            \<and> reorder_point r = py_round (fadd ltd ss) 2"
proof -
  from assms(2) obtain product where p: "find_product d product_id = Some product"
    by (auto simp add: calculate_reorder_point_def split: option.splits)
  define L where "L = (case find_supplier d product of Some s \<Rightarrow> s_lead_time_days s | None \<Rightarrow> 7)"
  define ltd where "ltd = fmul (daily_average forecast_result) (binary64 (real L))"
  define ss where "ss = fmul (fmul (z_score_for service_level) ltd) (binary64 0.3)"
  from assms(1,2) p have r: "lead_time_days r = L"
    "daily_demand r = py_round (daily_average forecast_result) 2"
    "lead_time_demand r = py_round ltd 2" "safety_stock r = py_round ss 2"
    "reorder_point r = py_round (fadd ltd ss) 2"
    by (auto simp add: calculate_reorder_point_def Let_def L_def ltd_def ss_def
        split: if_splits)
  from assms(5) r(1) have "binary64 (real L) = real (lead_time_days r)"
    by (simp add: binary64_of_nat)
  then have l: "ltd = fmul (daily_average forecast_result) (real (lead_time_days r))"
    by (simp add: ltd_def)
  have z: "(if service_level = binary64 0.90 then binary64 1.28
            else if service_level = binary64 0.95 then binary64 1.65
            else if service_level = binary64 0.99 then binary64 2.33
            else binary64 1.65) = z_score_for service_level"
    by (simp only: z_score_for_table)
  show ?thesis
    unfolding Let_def z l [symmetric] using r by (simp add: ss_def)
qed

theorem calculate_reorder_point_rounded_witness:
  "\<exists>f r. generate_forecast failing_fit week_db 1 30 ''auto'' = Inr f
       \<and> calculate_reorder_point failing_fit week_db 1 (binary64 0.95) = Inr r
       \<and> 1 / 2 ^ 500 \<le> daily_average f \<and> daily_average f \<le> 2 ^ 500
       \<and> lead_time_days r < 2 ^ 53
       \<and> daily_average f = binary64 (9 / 7)
       \<and> lead_time_days r = 1
       \<and> daily_demand r = py_round (binary64 (9 / 7)) 2
       \<and> lead_time_demand r = py_round (fmul (binary64 (9 / 7)) 1) 2
       \<and> safety_stock r
           = py_round (fmul (fmul (binary64 1.65) (fmul (binary64 (9 / 7)) 1)) (binary64 0.3)) 2
       \<and> reorder_point r
           = py_round (fadd (fmul (binary64 (9 / 7)) 1)
               (fmul (fmul (binary64 1.65) (fmul (binary64 (9 / 7)) 1)) (binary64 0.3))) 2"
proof -
  let ?f = "\<lparr> fr_product_id = 1, forecast_method = ''moving_average'', horizon_days = 30,
           total_forecast = fmul (5790342378047781 / 2 ^ 52) 30,
           daily_average = 5790342378047781 / 2 ^ 52, forecast_series = None,
           trend_slope = None, parameters = [(''window'', 7)], data_points = 7 \<rparr>"
  let ?r = "\<lparr> rp_product_id = 1, rp_sku = ''G-1'', reorder_point = binary64 1.92,
           lead_time_demand = binary64 1.29, safety_stock = binary64 0.64,
           daily_demand = binary64 1.29, lead_time_days = 1,
           rp_service_level = binary64 0.95, supplier_name = ''Next Day Ltd'',
           rp_parameters = [(''z_score'', binary64 1.65),
                            (''demand_variability_factor'', binary64 0.3)] \<rparr>"
  have h: "1 / 2 ^ 500 \<le> daily_average ?f" "daily_average ?f \<le> 2 ^ 500"
    "lead_time_days ?r < 2 ^ 53"
    by simp_all
  note c = calculate_reorder_point_rounded [OF week_forecast [of failing_fit]
      week_reorder_point [of failing_fit] h]
  have s: "(if binary64 0.95 = binary64 0.90 then binary64 1.28
            else if binary64 0.95 = binary64 0.95 then binary64 1.65
            else if binary64 0.95 = binary64 0.99 then binary64 2.33
            else binary64 1.65) = binary64 1.65"
    using binary64_0_9 binary64_0_95 by simp
  from c have "daily_demand ?r = py_round (binary64 (9 / 7)) 2
       \<and> lead_time_demand ?r = py_round (fmul (binary64 (9 / 7)) 1) 2
       \<and> safety_stock ?r
           = py_round (fmul (fmul (binary64 1.65) (fmul (binary64 (9 / 7)) 1)) (binary64 0.3)) 2
       \<and> reorder_point ?r
           = py_round (fadd (fmul (binary64 (9 / 7)) 1)
               (fmul (fmul (binary64 1.65) (fmul (binary64 (9 / 7)) 1)) (binary64 0.3))) 2"
    unfolding Let_def s by (simp add: binary64_9_7)
  with h show ?thesis
    using week_forecast [of failing_fit] week_reorder_point [of failing_fit]
    by (simp add: binary64_9_7)
qed

text \<open>Against claim C6 as stated: with a daily demand of 9/7, a lead time of one day and a
  service level of 0.95 the result reports a reorder point of 1.92, a lead-time demand of
  1.29 and a safety stock of 0.64; the double sum of 1.29 and 0.64 is 1.9300000000000002,
  and their exact sum is not the double 1.92 either.\<close>

theorem reorder_point_rounding_counterexample:
  "map_sum id reorder_point (calculate_reorder_point failing_fit week_db 1 (binary64 0.95))
       = Inr (binary64 1.92)
   \<and> map_sum id lead_time_demand (calculate_reorder_point failing_fit week_db 1 (binary64 0.95))
       = Inr (binary64 1.29)
   \<and> map_sum id safety_stock (calculate_reorder_point failing_fit week_db 1 (binary64 0.95))
       = Inr (binary64 0.64)
   \<and> fadd (binary64 1.29) (binary64 0.64) = 8691947280825058 / 2 ^ 52
   \<and> binary64 1.92 = 8646911284551352 / 2 ^ 52
   \<and> binary64 1.92 \<noteq> fadd (binary64 1.29) (binary64 0.64)
   \<and> binary64 1.92 \<noteq> binary64 1.29 + binary64 0.64"
proof -
  have s: "fadd (5809643519307940 / 2 ^ 52) (5764607523034235 / 2 ^ 53)
             = 8691947280825058 / 2 ^ 52"
    unfolding fadd_def
    using binary64_eval_round [of "5809643519307940 / 2 ^ 52 + 5764607523034235 / 2 ^ 53"
        52 8691947280825058]
    by (simp add: round_half_even_def)
  have s': "fadd (binary64 1.29) (binary64 0.64) = 8691947280825058 / 2 ^ 52"
    unfolding binary64_1_29 binary64_0_64 by (rule s)
  have n: "binary64 1.92 \<noteq> fadd (binary64 1.29) (binary64 0.64)"
    unfolding s' binary64_1_92 by simp
  have n': "binary64 1.92 \<noteq> binary64 1.29 + binary64 0.64"
    unfolding binary64_1_92 binary64_1_29 binary64_0_64 by simp
  have c: "map_sum id reorder_point
             (calculate_reorder_point failing_fit week_db 1 (binary64 0.95))
           = Inr (binary64 1.92)"
    "map_sum id lead_time_demand
             (calculate_reorder_point failing_fit week_db 1 (binary64 0.95))
           = Inr (binary64 1.29)"
    "map_sum id safety_stock
             (calculate_reorder_point failing_fit week_db 1 (binary64 0.95))
           = Inr (binary64 0.64)"
    using week_reorder_point [of failing_fit] by simp_all
  show ?thesis
    by (intro conjI c s' binary64_1_92 n n')
qed

subsection \<open>Economic order quantity\<close>

text \<open>With positive demand, costs and rate no guard of the calculation fires, and the
  quantity returned is the double square root of the double quotient, rounded to two
  decimals.\<close>

lemma calculate_eoq_value:
  assumes "find_product d product_id = Some product"
    and "estimate_annual_demand fit d product_id supplied = Inr demand"
    and "0 < demand" and "0 < ordering_cost"
    and "0 < holding_cost_rate" and "0 < p_unit_cost product"
  shows "\<exists>r. calculate_eoq fit d product_id supplied ordering_cost holding_cost_rate = Inr r
           \<and> eoq r = py_round (fsqrt (fdiv (fmul (fmul 2 demand) ordering_cost)
                          (fmul (binary64 (p_unit_cost product)) holding_cost_rate))) 2"
proof -
  define h where "h = fmul (binary64 (p_unit_cost product)) holding_cost_rate"
  define q where "q = fdiv (fmul (fmul 2 demand) ordering_cost) h"
  define n where "n = fdiv demand (fsqrt q)"
  from assms have h: "0 < h"
    by (simp add: h_def fmul_def binary64_pos)
  with assms have q: "0 < q"
    by (simp add: q_def fmul_def fdiv_def binary64_pos)
  then have s: "0 < fsqrt q"
    by (simp add: fsqrt_def binary64_pos)
  with assms have n: "0 < n"
    by (simp add: n_def fdiv_def binary64_pos)
  show ?thesis
    using assms h q s n
    by (simp add: calculate_eoq_def Let_def h_def [symmetric] q_def [symmetric]
        n_def [symmetric])
qed

text \<open>Doubling the ordering cost doubles the quotient under the square root, exactly.\<close>

lemma eoq_radicand_double:
  "fdiv (fmul (fmul 2 demand) (2 * ordering_cost)) h
     = 2 * fdiv (fmul (fmul 2 demand) ordering_cost) h"
proof -
  have "fmul (fmul 2 demand) (2 * ordering_cost) = 2 * fmul (fmul 2 demand) ordering_cost"
    using binary64_double [of "fmul 2 demand * ordering_cost"]
    by (simp add: fmul_def mult.left_commute)
  then show ?thesis
    using binary64_double [of "fmul (fmul 2 demand) ordering_cost / h"]
    by (simp add: fdiv_def)
qed

text \<open>
  Claim C8, as the code has it.  For an existing product, an annual demand, an ordering
  cost and a holding cost rate between \<open>2\<^sup>-\<^sup>2\<^sup>0\<^sup>0\<close> and \<open>2\<^sup>2\<^sup>0\<^sup>0\<close> and a unit cost
  between 0.01 and \<open>10\<^sup>8\<close> (so that no operation overflows or underflows),
  \<open>calculate_eoq\<close> succeeds and returns \<open>round(sqrt(q), 2)\<close>, where \<open>q\<close> is the double
  quotient \<open>((2 * D) * S) / (unit_cost * rate)\<close> and \<open>sqrt\<close> the double square root.
  Doubling the ordering cost doubles \<open>q\<close> exactly, so the value returned is
  \<open>round(sqrt(2 * q), 2)\<close>; nothing more is said of the ratio of the two values returned.
  Whenever the annual demand, supplied or derived from the 90-day forecast, is not
  positive, \<open>calculate_eoq\<close> returns the error ``Annual demand must be positive''.
\<close>

theorem calculate_eoq_scaling:
  "(find_product d product_id = Some product
      \<and> 1 / 2 ^ 200 \<le> demand \<and> demand \<le> 2 ^ 200
      \<and> 1 / 2 ^ 200 \<le> ordering_cost \<and> ordering_cost \<le> 2 ^ 200
      \<and> 1 / 2 ^ 200 \<le> holding_cost_rate \<and> holding_cost_rate \<le> 2 ^ 200
      \<and> 1 / 100 \<le> p_unit_cost product \<and> p_unit_cost product \<le> 10 ^ 8 \<longrightarrow>
      (\<exists>r r'. calculate_eoq fit d product_id (Some demand) ordering_cost holding_cost_rate = Inr r
         \<and> calculate_eoq fit d product_id (Some demand) (2 * ordering_cost) holding_cost_rate
             = Inr r'
         \<and> (let q = fdiv (fmul (fmul 2 demand) ordering_cost)
                      (fmul (binary64 (p_unit_cost product)) holding_cost_rate)
            in eoq r = py_round (fsqrt q) 2 \<and> eoq r' = py_round (fsqrt (2 * q)) 2)))
   \<and> (find_product d product_id = Some product
        \<and> estimate_annual_demand fit d product_id supplied = Inr demand \<and> demand \<le> 0 \<longrightarrow>
        calculate_eoq fit d product_id supplied ordering_cost holding_cost_rate
          = Inl ''Annual demand must be positive'')"
proof (intro conjI impI)
  assume a: "find_product d product_id = Some product
      \<and> 1 / 2 ^ 200 \<le> demand \<and> demand \<le> 2 ^ 200
      \<and> 1 / 2 ^ 200 \<le> ordering_cost \<and> ordering_cost \<le> 2 ^ 200
      \<and> 1 / 2 ^ 200 \<le> holding_cost_rate \<and> holding_cost_rate \<le> 2 ^ 200
      \<and> 1 / 100 \<le> p_unit_cost product \<and> p_unit_cost product \<le> 10 ^ 8"
  let ?h = "fmul (binary64 (p_unit_cost product)) holding_cost_rate"
  have "(0::real) < 1 / 2 ^ 200" by simp
  with a have pos: "0 < demand" "0 < ordering_cost" "0 < holding_cost_rate"
    by linarith+
  from a have pos_cost: "0 < p_unit_cost product" by linarith
  have e: "estimate_annual_demand fit d product_id (Some demand) = Inr demand"
    by (simp add: estimate_annual_demand_def)
  from a have p: "find_product d product_id = Some product" by simp
  obtain r where r: "calculate_eoq fit d product_id (Some demand) ordering_cost
        holding_cost_rate = Inr r"
      "eoq r = py_round (fsqrt (fdiv (fmul (fmul 2 demand) ordering_cost) ?h)) 2"
    using calculate_eoq_value [OF p e pos(1) pos(2) pos(3) pos_cost] by blast
  from pos(2) have pos2: "0 < 2 * ordering_cost" by simp
  obtain r' where r': "calculate_eoq fit d product_id (Some demand) (2 * ordering_cost)
        holding_cost_rate = Inr r'"
      "eoq r' = py_round (fsqrt (fdiv (fmul (fmul 2 demand) (2 * ordering_cost)) ?h)) 2"
    using calculate_eoq_value [OF p e pos(1) pos2 pos(3) pos_cost] by blast
  from r'(2) have "eoq r' = py_round (fsqrt (2 * fdiv (fmul (fmul 2 demand) ordering_cost) ?h)) 2"
    by (simp only: eoq_radicand_double)
  with r r'(1) show "\<exists>r r'. calculate_eoq fit d product_id (Some demand) ordering_cost
           holding_cost_rate = Inr r
         \<and> calculate_eoq fit d product_id (Some demand) (2 * ordering_cost) holding_cost_rate
             = Inr r'
         \<and> (let q = fdiv (fmul (fmul 2 demand) ordering_cost)
                      (fmul (binary64 (p_unit_cost product)) holding_cost_rate)
            in eoq r = py_round (fsqrt q) 2 \<and> eoq r' = py_round (fsqrt (2 * q)) 2)"
    unfolding Let_def by blast
next
  assume "find_product d product_id = Some product
        \<and> estimate_annual_demand fit d product_id supplied = Inr demand \<and> demand \<le> 0"
  then show "calculate_eoq fit d product_id supplied ordering_cost holding_cost_rate
          = Inl ''Annual demand must be positive''"
    by (simp add: calculate_eoq_def)
qed

text \<open>An annual demand of 1000, a unit cost of 20 and a holding cost rate of 0.25: the
  quotient is 20000 for an ordering cost of 50.\<close>

lemma steady_radicand:
  "fdiv (fmul (fmul 2 1000) 50) (fmul (binary64 (p_unit_cost widget)) 0.25) = 20000"
  by (simp add: widget_fields float_ops binary64_numeral)

lemma fsqrt_20000: "fsqrt 20000 = 4975821619160760 / 2 ^ 45"
proof -
  have e: "sqrt 20000 * 2 ^ 45 = sqrt (20000 * 2 ^ 90)"
    by (rule real_sqrt_unique [symmetric]) (simp_all add: power_mult_distrib)
  have lo: "4975821619160760 - 1 / 2 < sqrt (20000 * 2 ^ 90)"
    by (rule real_less_rsqrt) (simp add: power2_eq_square)
  have hi: "sqrt (20000 * 2 ^ 90) < 4975821619160760 + 1 / 2"
    by (rule real_less_lsqrt) (simp_all add: power2_eq_square)
  have "\<bar>sqrt 20000 * 2 ^ 45 - of_int 4975821619160760\<bar> < 1 / 2"
    unfolding e abs_less_iff using lo hi by simp
  moreover have "2 ^ 52 \<le> \<bar>sqrt 20000\<bar> * 2 ^ 45" "\<bar>sqrt 20000\<bar> * 2 ^ 45 < 2 ^ 53"
    using lo hi e by simp_all
  ultimately have "binary64 (sqrt 20000) = of_int 4975821619160760 / 2 ^ 45"
    by (intro binary64_eval_nat)
  then show ?thesis by (simp add: fsqrt_def)
qed

lemma fsqrt_2: "fsqrt 2 = 6369051672525773 / 2 ^ 52"
proof -
  have e: "sqrt 2 * 2 ^ 52 = sqrt (2 * 2 ^ 104)"
    by (rule real_sqrt_unique [symmetric]) (simp_all add: power_mult_distrib)
  have lo: "6369051672525773 - 1 / 2 < sqrt (2 * 2 ^ 104)"
    by (rule real_less_rsqrt) (simp add: power2_eq_square)
  have hi: "sqrt (2 * 2 ^ 104) < 6369051672525773 + 1 / 2"
    by (rule real_less_lsqrt) (simp_all add: power2_eq_square)
  have "\<bar>sqrt 2 * 2 ^ 52 - of_int 6369051672525773\<bar> < 1 / 2"
    unfolding e abs_less_iff using lo hi by simp
  moreover have "2 ^ 52 \<le> \<bar>sqrt 2\<bar> * 2 ^ 52" "\<bar>sqrt 2\<bar> * 2 ^ 52 < 2 ^ 53"
    using lo hi e by simp_all
  ultimately have "binary64 (sqrt 2) = of_int 6369051672525773 / 2 ^ 52"
    by (intro binary64_eval_nat)
  then show ?thesis by (simp add: fsqrt_def)
qed

lemma fsqrt_40000: "fsqrt 40000 = 200"
  by (simp add: fsqrt_def sqrt_40000 binary64_numeral)


lemma py_round_200: "py_round 200 2 = 200"
  using py_round_whole [of 200 2] by simp


lemma py_round_141_42: "py_round (4975821619160760 / 2 ^ 45) 2 = binary64 141.42"
  by (simp add: py_round_def round_half_even_def Let_def)

theorem calculate_eoq_scaling_witness:
  "find_product steady_db 1 = Some widget
   \<and> (1 / 2 ^ 200 :: real) \<le> 1000 \<and> (1000 :: real) \<le> 2 ^ 200
   \<and> (1 / 2 ^ 200 :: real) \<le> 50 \<and> (50 :: real) \<le> 2 ^ 200
   \<and> (1 / 2 ^ 200 :: real) \<le> 0.25 \<and> (0.25 :: real) \<le> 2 ^ 200
   \<and> 1 / 100 \<le> p_unit_cost widget \<and> p_unit_cost widget \<le> 10 ^ 8
   \<and> (\<exists>r r'. calculate_eoq failing_fit steady_db 1 (Some 1000) 50 0.25 = Inr r
         \<and> calculate_eoq failing_fit steady_db 1 (Some 1000) (2 * 50) 0.25 = Inr r'
         \<and> eoq r = py_round (fsqrt 20000) 2 \<and> eoq r' = py_round (fsqrt (2 * 20000)) 2)
   \<and> find_product idle_db 1 = Some widget
   \<and> estimate_annual_demand failing_fit idle_db 1 None = Inr 0
   \<and> calculate_eoq failing_fit idle_db 1 None 50 0.25 = Inl ''Annual demand must be positive''"
proof -
  have e: "estimate_annual_demand failing_fit idle_db 1 None = Inr 0"
    by (simp add: estimate_annual_demand_def idle_forecast float_ops)
  have h: "(1 / 2 ^ 200 :: real) \<le> 1000" "(1000 :: real) \<le> 2 ^ 200"
    "(1 / 2 ^ 200 :: real) \<le> 50" "(50 :: real) \<le> 2 ^ 200"
    "(1 / 2 ^ 200 :: real) \<le> 0.25" "(0.25 :: real) \<le> 2 ^ 200"
    "1 / 100 \<le> p_unit_cost widget" "p_unit_cost widget \<le> 10 ^ 8"
    by (simp_all add: widget_fields)
  note c = calculate_eoq_scaling [where d = steady_db and product_id = 1 and product = widget
        and demand = 1000 and ordering_cost = 50 and holding_cost_rate = "0.25"
        and fit = failing_fit]
  from c steady_product h
  have "\<exists>r r'. calculate_eoq failing_fit steady_db 1 (Some 1000) 50 0.25 = Inr r
         \<and> calculate_eoq failing_fit steady_db 1 (Some 1000) (2 * 50) 0.25 = Inr r'
         \<and> (let q = fdiv (fmul (fmul 2 1000) 50) (fmul (binary64 (p_unit_cost widget)) 0.25)
            in eoq r = py_round (fsqrt q) 2 \<and> eoq r' = py_round (fsqrt (2 * q)) 2)"
    by blast
  then have s: "\<exists>r r'. calculate_eoq failing_fit steady_db 1 (Some 1000) 50 0.25 = Inr r
         \<and> calculate_eoq failing_fit steady_db 1 (Some 1000) (2 * 50) 0.25 = Inr r'
         \<and> eoq r = py_round (fsqrt 20000) 2 \<and> eoq r' = py_round (fsqrt (2 * 20000)) 2"
    unfolding Let_def steady_radicand .
  note c' = calculate_eoq_scaling [where d = idle_db and product_id = 1 and product = widget
        and demand = 0 and supplied = None and ordering_cost = 50
        and holding_cost_rate = "0.25" and fit = failing_fit]
  from c' idle_product e
  have i: "calculate_eoq failing_fit idle_db 1 None 50 0.25 = Inl ''Annual demand must be positive''"
    by simp
  show ?thesis
    by (intro conjI steady_product h s idle_product e i)
qed

text \<open>Against claim C8 as stated: for an annual demand of 1000, a unit cost of 20 and a
  holding cost rate of 0.25, an ordering cost of 50 returns 141.42 and an ordering cost
  of 100 returns 200, which is not \<open>sqrt 2\<close> times 141.42, neither exactly nor as the
  double product 199.9980819908031 of the doubles of \<open>sqrt 2\<close> and 141.42.\<close>

theorem eoq_scaling_counterexample:
  "map_sum id eoq (calculate_eoq failing_fit steady_db 1 (Some 1000) 50 0.25)
     = Inr (binary64 141.42)
   \<and> map_sum id eoq (calculate_eoq failing_fit steady_db 1 (Some 1000) 100 0.25) = Inr 200
   \<and> binary64 141.42 = 4975773900802621 / 2 ^ 45
   \<and> fmul (fsqrt 2) (binary64 141.42) = 7036806933817146 / 2 ^ 45
   \<and> (200::real) \<noteq> fmul (fsqrt 2) (binary64 141.42)
   \<and> (200::real) \<noteq> sqrt 2 * binary64 141.42"
proof -
  have e: "estimate_annual_demand failing_fit steady_db 1 (Some 1000) = Inr 1000"
    by (simp add: estimate_annual_demand_def)
  have q': "fdiv (fmul (fmul 2 1000) 100) (fmul (binary64 (p_unit_cost widget)) 0.25) = 40000"
    by (simp add: widget_fields float_ops binary64_numeral)
  have pos: "(0::real) < 1000" "(0::real) < 50" "(0::real) < 100" "(0::real) < 0.25"
    "0 < p_unit_cost widget"
    by (simp_all add: widget_fields)
  obtain r where r: "calculate_eoq failing_fit steady_db 1 (Some 1000) 50 0.25 = Inr r"
      "eoq r = py_round (fsqrt (fdiv (fmul (fmul 2 1000) 50)
                  (fmul (binary64 (p_unit_cost widget)) 0.25))) 2"
    using calculate_eoq_value [OF steady_product e pos(1) pos(2) pos(4) pos(5)] by blast
  obtain r' where r': "calculate_eoq failing_fit steady_db 1 (Some 1000) 100 0.25 = Inr r'"
      "eoq r' = py_round (fsqrt (fdiv (fmul (fmul 2 1000) 100)
                  (fmul (binary64 (p_unit_cost widget)) 0.25))) 2"
    using calculate_eoq_value [OF steady_product e pos(1) pos(3) pos(4) pos(5)] by blast
  have v: "eoq r = binary64 141.42"
    unfolding r(2) steady_radicand fsqrt_20000 by (rule py_round_141_42)
  have v': "eoq r' = 200"
    unfolding r'(2) q' fsqrt_40000 by (rule py_round_200)
  have m: "fmul (6369051672525773 / 2 ^ 52) (4975773900802621 / 2 ^ 45)
             = 7036806933817146 / 2 ^ 45"
    unfolding fmul_def
    using binary64_eval_nat [of "6369051672525773 / 2 ^ 52 * (4975773900802621 / 2 ^ 45)"
        45 7036806933817146]
    by simp
  have m': "fmul (fsqrt 2) (binary64 141.42) = 7036806933817146 / 2 ^ 45"
    unfolding fsqrt_2 binary64_141_42 by (rule m)
  have n: "(200::real) \<noteq> fmul (fsqrt 2) (binary64 141.42)"
    unfolding m' by simp
  have n': "(200::real) \<noteq> sqrt 2 * binary64 141.42"
  proof
    assume "(200::real) = sqrt 2 * binary64 141.42"
    then have "(200::real)\<^sup>2 = (sqrt 2 * (4975773900802621 / 2 ^ 45))\<^sup>2"
      unfolding binary64_141_42 by simp
    then show False by (simp add: power_mult_distrib power2_eq_square)
  qed
  have c: "map_sum id eoq (calculate_eoq failing_fit steady_db 1 (Some 1000) 50 0.25)
             = Inr (binary64 141.42)"
    "map_sum id eoq (calculate_eoq failing_fit steady_db 1 (Some 1000) 100 0.25) = Inr 200"
    using r(1) r'(1) v v' by simp_all
  show ?thesis
    by (intro conjI c binary64_141_42 m' n n')
qed

text \<open>An annual demand of 41209, an ordering cost of 1, a unit cost of 320000 and a
  holding cost rate of 0.25: the exact quotient is 1.030225 and its square root 1.015;
  the double quotient and its double square root are just below, and the quantity
  returned is 1.01.\<close>

lemma crate_product: "find_product crate_db 1 = Some crate"
  by (simp add: find_product_def crate_db_def store_def crate_def)

lemma crate_radicand:
  "fdiv (fmul (fmul 2 41209) 1) (fmul (binary64 (p_unit_cost crate)) 0.25)
     = 4639720926107769 / 2 ^ 52"
proof -
  have "binary64 (41209 / 40000) = 4639720926107769 / 2 ^ 52"
    using binary64_eval_nat [of "41209 / 40000" 52 4639720926107769] by simp
  then show ?thesis
    by (simp add: crate_def float_ops binary64_numeral)
qed

lemma crate_sqrt: "fsqrt (4639720926107769 / 2 ^ 52) = 4571153621781053 / 2 ^ 52"
proof -
  have e: "sqrt (4639720926107769 / 2 ^ 52) * 2 ^ 52 = sqrt (4639720926107769 * 2 ^ 52)"
    by (rule real_sqrt_unique [symmetric]) (simp_all add: power_mult_distrib)
  have lo: "4571153621781053 - 1 / 2 < sqrt (4639720926107769 * 2 ^ 52)"
    by (rule real_less_rsqrt) (simp add: power2_eq_square)
  have hi: "sqrt (4639720926107769 * 2 ^ 52) < 4571153621781053 + 1 / 2"
    by (rule real_less_lsqrt) (simp_all add: power2_eq_square)
  have b: "2 ^ 52 \<le> sqrt (4639720926107769 * 2 ^ 52)"
    "sqrt (4639720926107769 * 2 ^ 52) < 2 ^ 53"
    using lo hi by simp_all
  have "\<bar>sqrt (4639720926107769 / 2 ^ 52)\<bar> = sqrt (4639720926107769 / 2 ^ 52)"
    by simp
  with e have ab: "\<bar>sqrt (4639720926107769 / 2 ^ 52)\<bar> * 2 ^ 52
      = sqrt (4639720926107769 * 2 ^ 52)"
    by (simp only:)
  have "2 ^ 52 \<le> \<bar>sqrt (4639720926107769 / 2 ^ 52)\<bar> * 2 ^ 52"
    and "\<bar>sqrt (4639720926107769 / 2 ^ 52)\<bar> * 2 ^ 52 < 2 ^ 53"
    unfolding ab by (rule b)+
  moreover have "\<bar>sqrt (4639720926107769 / 2 ^ 52) * 2 ^ 52 - of_int 4571153621781053\<bar> < 1 / 2"
    unfolding e abs_less_iff using lo hi by simp
  ultimately have "binary64 (sqrt (4639720926107769 / 2 ^ 52))
      = of_int 4571153621781053 / 2 ^ 52"
    by (rule binary64_eval_nat)
  then show ?thesis by (simp add: fsqrt_def)
qed

lemma crate_eoq:
  "map_sum id eoq (calculate_eoq fit crate_db 1 (Some 41209) 1 0.25) = Inr (binary64 1.01)"
proof -
  have e: "estimate_annual_demand fit crate_db 1 (Some 41209) = Inr 41209"
    by (simp add: estimate_annual_demand_def)
  have pos: "(0::real) < 41209" "(0::real) < 1" "(0::real) < 0.25" "0 < p_unit_cost crate"
    by (simp_all add: crate_def)
  obtain r where r: "calculate_eoq fit crate_db 1 (Some 41209) 1 0.25 = Inr r"
      "eoq r = py_round (fsqrt (fdiv (fmul (fmul 2 41209) 1)
                  (fmul (binary64 (p_unit_cost crate)) 0.25))) 2"
    using calculate_eoq_value [OF crate_product e pos] by blast
  have "py_round (4571153621781053 / 2 ^ 52) 2 = binary64 1.01"
    by (simp add: py_round_def round_half_even_def Let_def)
  then have "eoq r = binary64 1.01"
    unfolding r(2) crate_radicand crate_sqrt .
  with r(1) show ?thesis by simp
qed

subsection \<open>Safety stock\<close>



subsection \<open>Recommendations\<close>

















end
